theory Spec2Isabelle
  imports Complex_Main "HOL-Library.Word"
begin

unbundle bit_operations_syntax

section \<open>The OneShare signalling server\<close>

text \<open>
  The server of \<^verbatim>\<open>src/index.ts\<close> registers, for every connection, seven event
  handlers on a Socket.io socket: \<^verbatim>\<open>create-room\<close>, \<^verbatim>\<open>join-room\<close>, three WebRTC relays
  and \<^verbatim>\<open>disconnect\<close>. The handlers read and write the \<^verbatim>\<open>sharerooms\<close> collection
  declared in \<^verbatim>\<open>src/models/ShareRoom.ts\<close> and the rooms of the Socket.io adapter, and
  they emit events to sockets.

  Each handler is embedded as a function on an explicit server state. A handler is run
  as one step: the interleaving of two \<^verbatim>\<open>async\<close> handlers at their \<^verbatim>\<open>await\<close> points,
  faults of the connection to the database, and the \<^verbatim>\<open>console\<close> output are not part of
  the model.

  Socket.io, Mongoose and nanoid are packages the repository imports. Each operation of
  theirs that a handler calls is a definition of its own below, named after the call it
  stands for, so that a handler reads like its source.
\<close>

subsection \<open>Client payloads\<close>

text \<open>
  A payload arrives as a JavaScript value decoded from JSON; an event sent without an
  argument gives the handler \<^verbatim>\<open>undefined\<close>. Numbers are rationals here (JSON has no NaN
  and no infinity).
\<close>

datatype json =
    JUndefined
  | JNull
  | JBool bool
  | JNum rat
  | JStr string
  | JArr "json list"
  | JObj "(string \<times> json) list"

datatype error = TypeError | ValidationError | DuplicateKey

text \<open>JavaScript truthiness, as \<^verbatim>\<open>!x\<close> and \<^verbatim>\<open>if (x)\<close> use it.\<close>

fun truthy :: "json \<Rightarrow> bool" where
  "truthy JUndefined = False"
| "truthy JNull = False"
| "truthy (JBool b) = b"
| "truthy (JNum n) = (n \<noteq> 0)"
| "truthy (JStr s) = (s \<noteq> [])"
| "truthy (JArr xs) = True"
| "truthy (JObj fs) = True"

fun isArray :: "json \<Rightarrow> bool" where
  "isArray (JArr xs) = True"
| "isArray v = False"

text \<open>The elements of an array; \<^verbatim>\<open>x.length\<close> of an array is their number.\<close>

fun elements :: "json \<Rightarrow> json list" where
  "elements (JArr xs) = xs"
| "elements v = []"

text \<open>
  Property access \<^verbatim>\<open>data.k\<close> for the keys the handlers read (\<^verbatim>\<open>targetSocketId\<close>,
  \<^verbatim>\<open>offer\<close>, \<^verbatim>\<open>answer\<close>, \<^verbatim>\<open>candidate\<close>): it throws a TypeError on \<^verbatim>\<open>undefined\<close> and
  \<^verbatim>\<open>null\<close>, reads the field of an object (given by its fields, each key once), and is
  \<^verbatim>\<open>undefined\<close> on every other value, none of which has a property of these names.
\<close>

fun get_prop :: "json \<Rightarrow> string \<Rightarrow> error + json" where
  "get_prop JUndefined k = Inl TypeError"
| "get_prop JNull k = Inl TypeError"
| "get_prop (JObj fs) k = Inr (case map_of fs k of None \<Rightarrow> JUndefined | Some v \<Rightarrow> v)"
| "get_prop v k = Inr JUndefined"

subsection \<open>The ShareRoom collection\<close>

text \<open>
  \<^verbatim>\<open>FileMetadataSchema\<close> and \<^verbatim>\<open>ShareRoomSchema\<close> of \<^verbatim>\<open>src/models/ShareRoom.ts\<close>.
  \<^verbatim>\<open>createdAt\<close> is written once from the clock and never read; it is left out.
\<close>

record FileMetadata =
  originalName :: string
  fileSize :: rat
  mimeType :: string

record ShareRoom =
  shareId :: string
  senderSocketId :: string
  receiverSocketIds :: "string list"
  fileMetadata :: "FileMetadata list"
  isWaiting :: bool
  deletionKey :: string

text \<open>
  Casting one element of \<^verbatim>\<open>fileMetadata\<close> to the sub-document schema: the three paths
  are \<^verbatim>\<open>required\<close>, which for a \<^verbatim>\<open>String\<close> path also rejects the empty string; the
  schema has no other validator. A field whose JSON type is not the declared one counts
  as a failed cast (the coercions Mongoose would try are not modelled), and fields the
  schema does not declare are dropped.
\<close>

fun castFileMetadata :: "json \<Rightarrow> FileMetadata option" where
  "castFileMetadata (JObj fs) =
     (case (map_of fs ''originalName'', map_of fs ''fileSize'', map_of fs ''mimeType'') of
        (Some (JStr n), Some (JNum z), Some (JStr m)) \<Rightarrow>
          if n \<noteq> [] \<and> m \<noteq> []
          then Some \<lparr>originalName = n, fileSize = z, mimeType = m\<rparr>
          else None
      | _ \<Rightarrow> None)"
| "castFileMetadata v = None"

fun castAll :: "json list \<Rightarrow> FileMetadata list option" where
  "castAll [] = Some []"
| "castAll (x # xs) =
     (case castFileMetadata x of
        None \<Rightarrow> None
      | Some m \<Rightarrow> (case castAll xs of None \<Rightarrow> None | Some ms \<Rightarrow> Some (m # ms)))"

text \<open>
  \<^verbatim>\<open>new ShareRoom({shareId, senderSocketId, deletionKey, fileMetadata})\<close>: the defaults of
  the schema fill \<^verbatim>\<open>receiverSocketIds\<close> and \<^verbatim>\<open>isWaiting\<close>; a failed cast or an empty
  required string is reported when the document is saved.
\<close>

definition newShareRoom :: "string \<Rightarrow> string \<Rightarrow> string \<Rightarrow> json list \<Rightarrow> error + ShareRoom" where
  "newShareRoom sid sender key items =
     (case castAll items of
        None \<Rightarrow> Inl ValidationError
      | Some ms \<Rightarrow>
          if sid = [] \<or> sender = [] \<or> key = [] then Inl ValidationError
          else Inr \<lparr>shareId = sid, senderSocketId = sender, receiverSocketIds = [],
                    fileMetadata = ms, isWaiting = True, deletionKey = key\<rparr>)"

text \<open>
  \<^verbatim>\<open>save\<close> inserts the document unless one of the two \<^verbatim>\<open>unique\<close> indexes
  (\<^verbatim>\<open>shareId\<close>, \<^verbatim>\<open>deletionKey\<close>) already holds its value.
\<close>

definition save :: "ShareRoom \<Rightarrow> ShareRoom list \<Rightarrow> error + ShareRoom list" where
  "save room coll =
     (if shareId room \<in> set (map shareId coll) \<or> deletionKey room \<in> set (map deletionKey coll)
      then Inl DuplicateKey
      else Inr (coll @ [room]))"

text \<open>\<^verbatim>\<open>findOne\<close>: the first document of the collection that matches the filter.\<close>

fun findOne :: "(ShareRoom \<Rightarrow> bool) \<Rightarrow> ShareRoom list \<Rightarrow> ShareRoom option" where
  "findOne P [] = None"
| "findOne P (r # rs) = (if P r then Some r else findOne P rs)"

text \<open>\<^verbatim>\<open>updateOne\<close>: the update is applied to the first matching document only.\<close>

fun updateOne :: "(ShareRoom \<Rightarrow> bool) \<Rightarrow> (ShareRoom \<Rightarrow> ShareRoom) \<Rightarrow> ShareRoom list \<Rightarrow> ShareRoom list" where
  "updateOne P f [] = []"
| "updateOne P f (r # rs) = (if P r then f r # rs else r # updateOne P f rs)"

text \<open>\<^verbatim>\<open>updateMany\<close>: the update is applied to every matching document.\<close>

definition updateMany :: "(ShareRoom \<Rightarrow> bool) \<Rightarrow> (ShareRoom \<Rightarrow> ShareRoom) \<Rightarrow> ShareRoom list \<Rightarrow> ShareRoom list" where
  "updateMany P f coll = map (\<lambda>r. if P r then f r else r) coll"

text \<open>\<^verbatim>\<open>findOneAndDelete\<close>: the first matching document is removed and returned.\<close>

fun deleteOne :: "(ShareRoom \<Rightarrow> bool) \<Rightarrow> ShareRoom list \<Rightarrow> ShareRoom list" where
  "deleteOne P [] = []"
| "deleteOne P (r # rs) = (if P r then rs else r # deleteOne P rs)"

definition findOneAndDelete :: "(ShareRoom \<Rightarrow> bool) \<Rightarrow> ShareRoom list \<Rightarrow> ShareRoom option \<times> ShareRoom list" where
  "findOneAndDelete P coll = (findOne P coll, deleteOne P coll)"

text \<open>The update operators \<^verbatim>\<open>$push\<close> (append) and \<^verbatim>\<open>$pull\<close> (remove every occurrence).\<close>

definition push_receiver :: "string \<Rightarrow> ShareRoom \<Rightarrow> ShareRoom" where
  "push_receiver c r = r\<lparr>receiverSocketIds := receiverSocketIds r @ [c]\<rparr>"

definition pull_receiver :: "string \<Rightarrow> ShareRoom \<Rightarrow> ShareRoom" where
  "pull_receiver c r = r\<lparr>receiverSocketIds := removeAll c (receiverSocketIds r)\<rparr>"

subsection \<open>Identifier generation\<close>

text \<open>
  Modelled from the spec: the function \<^verbatim>\<open>nanoid\<close>, imported from the package of that
  name, is not under \<^verbatim>\<open>src/\<close>. The spec asks for identifiers of a fixed length over a
  generation alphabet, drawn from a random source. The model follows the package: each
  character is the entry of the 64-character URL alphabet selected by the low six bits of
  one byte of the random pool, and a call of size \<open>n\<close> uses the next \<open>n\<close> bytes.
\<close>

definition urlAlphabet :: string where
  "urlAlphabet = ''useandom-26T198340PX75pxJACKVERYMINDBUSHWOLF_GQZbfghjklqvwyzrict''"

definition nanoid :: "(nat \<Rightarrow> 8 word) \<Rightarrow> nat \<Rightarrow> nat \<Rightarrow> string" where
  "nanoid bytes off n = map (\<lambda>i. urlAlphabet ! unat (bytes i AND 63)) [off ..< off + n]"

subsection \<open>Server state and the Socket.io operations\<close>

record message =
  recipient :: string
  event :: string
  payload :: json

text \<open>
  \<open>store\<close> is the collection; \<open>sids\<close> the connected sockets and \<open>rooms\<close> the members of
  each room of the adapter (both are JavaScript sets, kept in insertion order);
  \<open>outbox\<close> the events delivered so far, one entry per receiving socket; \<open>pool\<close> and
  \<open>poolOffset\<close> the random bytes and how many of them have been used.
\<close>

record server =
  store :: "ShareRoom list"
  sids :: "string list"
  rooms :: "string \<Rightarrow> string list"
  outbox :: "message list"
  pool :: "nat \<Rightarrow> 8 word"
  poolOffset :: nat

definition set_add :: "string \<Rightarrow> string list \<Rightarrow> string list" where
  "set_add x xs = (if x \<in> set xs then xs else xs @ [x])"

definition deliver :: "string list \<Rightarrow> string \<Rightarrow> json \<Rightarrow> server \<Rightarrow> server" where
  "deliver to ev p st =
     st\<lparr>outbox := outbox st @ map (\<lambda>c. \<lparr>recipient = c, event = ev, payload = p\<rparr>) to\<rparr>"

text \<open>\<^verbatim>\<open>socket.emit\<close>: to the socket itself.\<close>

definition socket_emit :: "string \<Rightarrow> string \<Rightarrow> json \<Rightarrow> server \<Rightarrow> server" where
  "socket_emit c ev p st = deliver [c] ev p st"

text \<open>\<^verbatim>\<open>socket.join(room)\<close>.\<close>

definition socket_join :: "string \<Rightarrow> string \<Rightarrow> server \<Rightarrow> server" where
  "socket_join c room st = st\<lparr>rooms := (rooms st)(room := set_add c (rooms st room))\<rparr>"

text \<open>
  The sockets a call \<^verbatim>\<open>io.to(target)\<close> addresses. Rooms are keyed by strings here, so a
  string names one room, an array of strings the union of its rooms (each socket once),
  and any other value a room that has no member.
\<close>

fun targets :: "server \<Rightarrow> json \<Rightarrow> string list" where
  "targets st (JStr room) = rooms st room"
| "targets st (JArr xs) =
     remdups (concat (map (\<lambda>x. case x of JStr room \<Rightarrow> rooms st room | _ \<Rightarrow> []) xs))"
| "targets st v = []"

text \<open>\<^verbatim>\<open>io.to(target).emit\<close>: to every member of the addressed rooms.\<close>

definition io_to_emit :: "json \<Rightarrow> string \<Rightarrow> json \<Rightarrow> server \<Rightarrow> server" where
  "io_to_emit target ev p st = deliver (targets st target) ev p st"

text \<open>\<^verbatim>\<open>socket.to(room).emit\<close>: to every member of the room except the socket.\<close>

definition socket_to_emit :: "string \<Rightarrow> string \<Rightarrow> string \<Rightarrow> json \<Rightarrow> server \<Rightarrow> server" where
  "socket_to_emit c room ev p st = deliver (filter (\<lambda>x. x \<noteq> c) (rooms st room)) ev p st"

text \<open>\<^verbatim>\<open>socket.broadcast.emit\<close>: to every connected socket except the socket.\<close>

definition socket_broadcast_emit :: "string \<Rightarrow> string \<Rightarrow> json \<Rightarrow> server \<Rightarrow> server" where
  "socket_broadcast_emit c ev p st = deliver (filter (\<lambda>x. x \<noteq> c) (sids st)) ev p st"

text \<open>\<^verbatim>\<open>io.in(room).allSockets()\<close>.\<close>

definition allSockets :: "string \<Rightarrow> server \<Rightarrow> string list" where
  "allSockets room st = rooms st room"

text \<open>
  A new connection: Socket.io registers the socket and puts it into the room named by its
  own id, which is what makes \<^verbatim>\<open>io.to(socketId)\<close> address one socket.
\<close>

definition connection :: "server \<Rightarrow> string \<Rightarrow> server" where
  "connection st c = socket_join c c (st\<lparr>sids := set_add c (sids st)\<rparr>)"

text \<open>
  A lost connection: before the \<^verbatim>\<open>disconnect\<close> listeners run, Socket.io takes the
  socket out of every room and out of the connected sockets.
\<close>

definition socket_close :: "server \<Rightarrow> string \<Rightarrow> server" where
  "socket_close st c =
     st\<lparr>sids := removeAll c (sids st), rooms := (\<lambda>room. removeAll c (rooms st room))\<rparr>"

subsection \<open>The handlers of \<^verbatim>\<open>src/index.ts\<close>\<close>

definition FileMetadata_json :: "FileMetadata \<Rightarrow> json" where
  "FileMetadata_json m =
     JObj [(''originalName'', JStr (originalName m)), (''fileSize'', JNum (fileSize m)),
           (''mimeType'', JStr (mimeType m))]"

text \<open>
  \<^verbatim>\<open>create-room\<close>. Both identifiers are generated before the document is built, so the
  pool has advanced by 16 bytes on every path behind the payload check. Whatever is
  thrown inside the \<^verbatim>\<open>try\<close> block ends in the one \<^verbatim>\<open>catch\<close> block.
\<close>

definition create_room :: "server \<Rightarrow> string \<Rightarrow> json \<Rightarrow> server" where
  "create_room st c fm =
     (if \<not> truthy fm \<or> \<not> isArray fm \<or> length (elements fm) = 0 then
        socket_emit c ''create-room-error'' (JStr ''Invalid file metadata provided.'') st
      else
        let sid = nanoid (pool st) (poolOffset st) 6;
            key = nanoid (pool st) (poolOffset st + 6) 10;
            st1 = st\<lparr>poolOffset := poolOffset st + 16\<rparr>;
            failed = socket_emit c ''create-room-error''
                       (JStr ''Failed to create room on server.'') st1
        in (case newShareRoom sid c key (elements fm) of
              Inl e \<Rightarrow> failed
            | Inr newRoom \<Rightarrow>
                (case save newRoom (store st1) of
                   Inl e \<Rightarrow> failed
                 | Inr coll \<Rightarrow>
                     socket_emit c ''room-created''
                       (JObj [(''shareId'', JStr (shareId newRoom)),
                              (''deletionKey'', JStr (deletionKey newRoom))])
                       (socket_join c sid (st1\<lparr>store := coll\<rparr>)))))"

text \<open>
  \<^verbatim>\<open>join-room\<close>, for a \<^verbatim>\<open>shareId\<close> that is a string. The lookup asks for
  \<^verbatim>\<open>isWaiting: true\<close>; the update that follows filters on \<^verbatim>\<open>shareId\<close> alone.
\<close>

definition join_room :: "server \<Rightarrow> string \<Rightarrow> string \<Rightarrow> server" where
  "join_room st c sid =
     (case findOne (\<lambda>r. shareId r = sid \<and> isWaiting r) (store st) of
        None \<Rightarrow>
          socket_emit c ''join-room-error'' (JStr ''Room not found or is no longer available!'') st
      | Some room \<Rightarrow>
          let st1 = socket_join c sid st;
              st2 = st1\<lparr>store := updateOne (\<lambda>r. shareId r = sid) (push_receiver c) (store st1)\<rparr>;
              otherPeerSocketIds = filter (\<lambda>x. x \<noteq> c) (allSockets sid st2);
              st3 = socket_emit c ''join-success''
                      (JObj [(''fileMetadata'', JArr (map FileMetadata_json (fileMetadata room))),
                             (''otherPeerSocketIds'', JArr (map JStr otherPeerSocketIds))]) st2
          in socket_to_emit c sid ''new-peer-joined'' (JObj [(''peerSocketId'', JStr c)]) st3)"

text \<open>
  The three relays. They have no \<^verbatim>\<open>try\<close> block: a TypeError thrown by
  \<^verbatim>\<open>data.targetSocketId\<close> leaves the handler (\<open>Inl\<close>).
\<close>

definition webrtc_offer :: "server \<Rightarrow> string \<Rightarrow> json \<Rightarrow> error + server" where
  "webrtc_offer st c data =
     (case get_prop data ''targetSocketId'' of
        Inl e \<Rightarrow> Inl e
      | Inr target \<Rightarrow>
          if \<not> truthy target then Inr st
          else (case get_prop data ''offer'' of
                  Inl e \<Rightarrow> Inl e
                | Inr offer \<Rightarrow>
                    Inr (io_to_emit target ''webrtc-offer-received''
                           (JObj [(''offer'', offer), (''senderSocketId'', JStr c)]) st)))"

definition webrtc_answer :: "server \<Rightarrow> string \<Rightarrow> json \<Rightarrow> error + server" where
  "webrtc_answer st c data =
     (case get_prop data ''targetSocketId'' of
        Inl e \<Rightarrow> Inl e
      | Inr target \<Rightarrow>
          if \<not> truthy target then Inr st
          else (case get_prop data ''answer'' of
                  Inl e \<Rightarrow> Inl e
                | Inr answer \<Rightarrow>
                    Inr (io_to_emit target ''webrtc-answer-received''
                           (JObj [(''answer'', answer), (''senderSocketId'', JStr c)]) st)))"

definition webrtc_ice_candidate :: "server \<Rightarrow> string \<Rightarrow> json \<Rightarrow> error + server" where
  "webrtc_ice_candidate st c data =
     (case get_prop data ''targetSocketId'' of
        Inl e \<Rightarrow> Inl e
      | Inr target \<Rightarrow>
          if \<not> truthy target then Inr st
          else (case get_prop data ''candidate'' of
                  Inl e \<Rightarrow> Inl e
                | Inr candidate \<Rightarrow>
                    Inr (io_to_emit target ''webrtc-ice-candidate-received''
                           (JObj [(''candidate'', candidate), (''senderSocketId'', JStr c)]) st)))"

text \<open>
  The \<^verbatim>\<open>disconnect\<close> listener, and the whole disconnect event: the listener runs on the
  state in which the socket has already left its rooms.
\<close>

definition disconnect_handler :: "server \<Rightarrow> string \<Rightarrow> server" where
  "disconnect_handler st c =
     (case findOneAndDelete (\<lambda>r. senderSocketId r = c) (store st) of
        (Some roomAsSender, coll) \<Rightarrow>
          io_to_emit (JStr (shareId roomAsSender)) ''room-closed-by-sender'' JUndefined
            (st\<lparr>store := coll\<rparr>)
      | (None, coll) \<Rightarrow>
          let st1 = socket_broadcast_emit c ''peer-left'' (JObj [(''peerSocketId'', JStr c)]) st
          in st1\<lparr>store := updateMany (\<lambda>r. c \<in> set (receiverSocketIds r)) (pull_receiver c)
                              (store st1)\<rparr>)"

definition disconnect :: "server \<Rightarrow> string \<Rightarrow> server" where
  "disconnect st c = disconnect_handler (socket_close st c) c"

subsection \<open>Events and runs\<close>

datatype inbound =
    Connection string
  | CreateRoom string json
  | JoinRoom string string
  | WebrtcOffer string json
  | WebrtcAnswer string json
  | WebrtcIceCandidate string json
  | Disconnect string

fun step :: "server \<Rightarrow> inbound \<Rightarrow> error + server" where
  "step st (Connection c) = Inr (connection st c)"
| "step st (CreateRoom c fm) = Inr (create_room st c fm)"
| "step st (JoinRoom c sid) = Inr (join_room st c sid)"
| "step st (WebrtcOffer c data) = webrtc_offer st c data"
| "step st (WebrtcAnswer c data) = webrtc_answer st c data"
| "step st (WebrtcIceCandidate c data) = webrtc_ice_candidate st c data"
| "step st (Disconnect c) = Inr (disconnect st c)"

text \<open>A run stops at the first exception that leaves a handler.\<close>

fun run :: "server \<Rightarrow> inbound list \<Rightarrow> error + server" where
  "run st [] = Inr st"
| "run st (e # es) = (case step st e of Inl x \<Rightarrow> Inl x | Inr st' \<Rightarrow> run st' es)"

definition start :: "(nat \<Rightarrow> 8 word) \<Rightarrow> server" where
  "start bytes = \<lparr>store = [], sids = [], rooms = (\<lambda>room. []), outbox = [],
                  pool = bytes, poolOffset = 0\<rparr>"

section \<open>Notions used in the statements\<close>

text \<open>The events a handler has emitted: what \<open>st'\<close> holds in its outbox beyond \<open>st\<close>.\<close>

definition emitted :: "server \<Rightarrow> server \<Rightarrow> message list" where
  "emitted st st' = drop (length (outbox st)) (outbox st')"

definition notice :: "string \<Rightarrow> json \<Rightarrow> string \<Rightarrow> message" where
  "notice ev p c = \<lparr>recipient = c, event = ev, payload = p\<rparr>"





text \<open>No list of receivers holds a connection twice.\<close>

definition no_duplicates :: "server \<Rightarrow> bool" where
  "no_duplicates st \<longleftrightarrow> (\<forall>r\<in>set (store st). distinct (receiverSocketIds r))"

text \<open>
  An event that joins a connection to a room whose list already holds it: the lookup of
  \<^verbatim>\<open>join-room\<close> succeeds, and the document its update will change lists the
  connection. A run has fresh joins when no event of it does so in the state it meets.
\<close>

fun rejoins :: "server \<Rightarrow> inbound \<Rightarrow> bool" where
  "rejoins st (JoinRoom c sid) =
     (findOne (\<lambda>r. shareId r = sid \<and> isWaiting r) (store st) \<noteq> None \<and>
      (case findOne (\<lambda>r. shareId r = sid) (store st) of
         None \<Rightarrow> False
       | Some r \<Rightarrow> c \<in> set (receiverSocketIds r)))"
| "rejoins st e = False"

fun fresh_joins :: "server \<Rightarrow> inbound list \<Rightarrow> bool" where
  "fresh_joins st [] = True"
| "fresh_joins st (e # es) =
     (\<not> rejoins st e \<and> (case step st e of Inl x \<Rightarrow> True | Inr st' \<Rightarrow> fresh_joins st' es))"



text \<open>
  Room names the handlers join are share ids, which have six characters. A room of any
  other name is the own room of a connected socket, or empty.
\<close>

definition own_rooms :: "server \<Rightarrow> bool" where
  "own_rooms st \<longleftrightarrow>
     (\<forall>s\<in>set (map shareId (store st)). length s = 6) \<and>
     (\<forall>c. length c \<noteq> 6 \<longrightarrow> rooms st c = (if c \<in> set (sids st) then [c] else []))"

section \<open>Example states\<close>

text \<open>
  A pool whose bytes count up, so that the first identifiers are \<^verbatim>\<open>useand\<close> and
  \<^verbatim>\<open>om-26T1983\<close>, then \<^verbatim>\<open>40PX75\<close>; and one that repeats its first sixteen bytes once.
\<close>

definition demo_bytes :: "nat \<Rightarrow> 8 word" where
  "demo_bytes i = of_nat i"

definition stuck_bytes :: "nat \<Rightarrow> 8 word" where
  "stuck_bytes i = (if i < 32 then of_nat (i mod 16) else of_nat i)"

definition a_txt :: json where
  "a_txt = JObj [(''originalName'', JStr ''a.txt''), (''fileSize'', JNum 10),
                 (''mimeType'', JStr ''text/plain'')]"


text \<open>Three connections; then \<^verbatim>\<open>S\<close> shares a file; then \<^verbatim>\<open>R1\<close> and \<^verbatim>\<open>R2\<close> join.\<close>

definition lobby :: server where
  "lobby = connection (connection (connection (start demo_bytes) ''S'') ''R1'') ''R2''"

definition shared :: server where
  "shared = create_room lobby ''S'' (JArr [a_txt])"

definition joined :: server where
  "joined = join_room (join_room shared ''R1'' ''useand'') ''R2'' ''useand''"

text \<open>\<^verbatim>\<open>S\<close> creates a second room, which \<^verbatim>\<open>R1\<close> joins.\<close>

definition twice :: server where
  "twice = join_room (create_room shared ''S'' (JArr [a_txt])) ''R1'' ''40PX75''"

text \<open>One room, made with the repeating pool: the next identifiers drawn are the same.\<close>

definition stuck :: server where
  "stuck = create_room (connection (start stuck_bytes) ''S'') ''S'' (JArr [a_txt])"


section \<open>Facts about the operations\<close>

subsection \<open>Emitting and joining\<close>

lemma outbox_deliver: "outbox (deliver to ev p st) = outbox st @ map (notice ev p) to"
  by (simp add: deliver_def notice_def)

lemma store_deliver: "store (deliver to ev p st) = store st"
  by (simp add: deliver_def)

lemma rooms_deliver: "rooms (deliver to ev p st) = rooms st"
  by (simp add: deliver_def)

lemma sids_deliver: "sids (deliver to ev p st) = sids st"
  by (simp add: deliver_def)

lemma emitted_deliver: "outbox st' = outbox st \<Longrightarrow> emitted st (deliver to ev p st') = map (notice ev p) to"
  by (simp add: emitted_def outbox_deliver)

lemma store_socket_emit: "store (socket_emit c ev p st) = store st"
  by (simp add: socket_emit_def store_deliver)

lemma rooms_socket_emit: "rooms (socket_emit c ev p st) = rooms st"
  by (simp add: socket_emit_def rooms_deliver)

lemma poolOffset_socket_emit: "poolOffset (socket_emit c ev p st) = poolOffset st"
  by (simp add: socket_emit_def deliver_def)

lemma sids_socket_emit: "sids (socket_emit c ev p st) = sids st"
  by (simp add: socket_emit_def sids_deliver)

lemma emitted_socket_emit:
  "outbox st' = outbox st \<Longrightarrow> emitted st (socket_emit c ev p st') = [notice ev p c]"
  by (simp add: socket_emit_def emitted_deliver)

lemma store_socket_join: "store (socket_join c room st) = store st"
  by (simp add: socket_join_def)


subsection \<open>The operations on the collection\<close>

lemma findOne_None: "findOne P coll = None \<longleftrightarrow> (\<forall>r\<in>set coll. \<not> P r)"
  by (induction coll) auto

lemma findOne_Some: "findOne P coll = Some r \<Longrightarrow> r \<in> set coll \<and> P r"
  by (induction coll) (auto split: if_splits)

lemma findOne_split:
  "findOne P coll = Some r \<Longrightarrow>
     \<exists>pre post. coll = pre @ r # post \<and> (\<forall>x\<in>set pre. \<not> P x) \<and> deleteOne P coll = pre @ post"
proof (induction coll)
  case Nil
  then show ?case by simp
next
  case (Cons a coll)
  show ?case
  proof (cases "P a")
    case True
    with Cons.prems have "a = r" by simp
    with True show ?thesis by (intro exI [of _ "[]"] exI [of _ coll]) simp
  next
    case False
    with Cons.prems have "findOne P coll = Some r" by simp
    from Cons.IH [OF this] obtain pre post
      where "coll = pre @ r # post" "\<forall>x\<in>set pre. \<not> P x" "deleteOne P coll = pre @ post"
      by blast
    with False show ?thesis by (intro exI [of _ "a # pre"] exI [of _ post]) simp
  qed
qed

lemma length_deleteOne: "length coll \<le> Suc (length (deleteOne P coll))"
  by (induction coll) auto

lemma deleteOne_subseq: "set (deleteOne P coll) \<subseteq> set coll"
  by (induction coll) auto


lemma pull_receiver_absent: "c \<notin> set (receiverSocketIds r) \<Longrightarrow> pull_receiver c r = r"
  by (simp add: pull_receiver_def)

lemma updateMany_pull:
  "updateMany (\<lambda>r. c \<in> set (receiverSocketIds r)) (pull_receiver c) coll = map (pull_receiver c) coll"
  by (simp add: updateMany_def pull_receiver_absent cong: map_cong)

lemma updateOne_push_distinct:
  assumes "\<forall>r\<in>set coll. distinct (receiverSocketIds r)"
    and "\<And>r. findOne P coll = Some r \<Longrightarrow> c \<notin> set (receiverSocketIds r)"
  shows "\<forall>r\<in>set (updateOne P (push_receiver c) coll). distinct (receiverSocketIds r)"
  using assms by (induction coll) (auto simp: push_receiver_def)

lemma map_shareId_updateOne:
  "map shareId (updateOne P (push_receiver c) coll) = map shareId coll"
  by (induction coll) (auto simp: push_receiver_def)

subsection \<open>Payloads and identifiers\<close>





lemma length_nanoid: "length (nanoid bytes off n) = n"
  by (simp add: nanoid_def)






lemma newShareRoom_Inr:
  "newShareRoom sid c key items = Inr room \<Longrightarrow>
     shareId room = sid \<and> deletionKey room = key \<and> senderSocketId room = c
     \<and> receiverSocketIds room = [] \<and> isWaiting room \<and> castAll items = Some (fileMetadata room)"
  by (auto simp: newShareRoom_def split: option.splits if_splits)

subsection \<open>The paths of \<^verbatim>\<open>create-room\<close>\<close>

lemma create_room_invalid:
  assumes "\<not> truthy fm \<or> \<not> isArray fm \<or> elements fm = []"
  shows "create_room st c fm =
           socket_emit c ''create-room-error'' (JStr ''Invalid file metadata provided.'') st"
  using assms by (auto simp: create_room_def)

lemma create_room_steps:
  assumes "truthy fm" "isArray fm" "elements fm \<noteq> []"
  shows "create_room st c fm =
     (case newShareRoom (nanoid (pool st) (poolOffset st) 6) c
             (nanoid (pool st) (poolOffset st + 6) 10) (elements fm) of
        Inl e \<Rightarrow> socket_emit c ''create-room-error'' (JStr ''Failed to create room on server.'')
                  (st\<lparr>poolOffset := poolOffset st + 16\<rparr>)
      | Inr newRoom \<Rightarrow>
          (case save newRoom (store st) of
             Inl e \<Rightarrow> socket_emit c ''create-room-error'' (JStr ''Failed to create room on server.'')
                  (st\<lparr>poolOffset := poolOffset st + 16\<rparr>)
           | Inr coll \<Rightarrow>
               socket_emit c ''room-created''
                 (JObj [(''shareId'', JStr (shareId newRoom)),
                        (''deletionKey'', JStr (deletionKey newRoom))])
                 (socket_join c (nanoid (pool st) (poolOffset st) 6)
                    (st\<lparr>poolOffset := poolOffset st + 16, store := coll\<rparr>))))"
  using assms by (simp add: create_room_def Let_def split: sum.splits)

lemma create_room_changed_shape:
  assumes "store (create_room st c fm) \<noteq> store st"
  shows "truthy fm" "isArray fm" "elements fm \<noteq> []"
proof -
  have "\<not> (\<not> truthy fm \<or> \<not> isArray fm \<or> elements fm = [])"
  proof
    assume "\<not> truthy fm \<or> \<not> isArray fm \<or> elements fm = []"
    from create_room_invalid [OF this] assms show False
      by (simp add: store_socket_emit)
  qed
  then show "truthy fm" "isArray fm" "elements fm \<noteq> []"
    by auto
qed




subsection \<open>The paths of \<^verbatim>\<open>join-room\<close> and \<^verbatim>\<open>disconnect\<close>\<close>


lemma disconnect_receiver:
  assumes "findOne (\<lambda>r. senderSocketId r = c) (store st) = None"
  shows "disconnect st c =
     (socket_broadcast_emit c ''peer-left'' (JObj [(''peerSocketId'', JStr c)]) (socket_close st c))
        \<lparr>store := map (pull_receiver c) (store st)\<rparr>"
  using assms
  by (simp add: disconnect_def disconnect_handler_def findOneAndDelete_def socket_close_def
      socket_broadcast_emit_def store_deliver updateMany_pull Let_def)

lemma disconnect_sender:
  assumes "findOne (\<lambda>r. senderSocketId r = c) (store st) = Some room"
  shows "disconnect st c =
     io_to_emit (JStr (shareId room)) ''room-closed-by-sender'' JUndefined
       ((socket_close st c)\<lparr>store := deleteOne (\<lambda>r. senderSocketId r = c) (store st)\<rparr>)"
  using assms
  by (simp add: disconnect_def disconnect_handler_def findOneAndDelete_def socket_close_def)

subsection \<open>What each handler does to the collection and to the rooms\<close>

lemma store_connection: "store (connection st c) = store st"
  by (simp add: connection_def socket_join_def)

lemma store_create_room:
  "store (create_room st c fm) = store st
   \<or> (\<exists>room. receiverSocketIds room = [] \<and> shareId room \<notin> set (map shareId (store st))
         \<and> store (create_room st c fm) = store st @ [room])"
proof (cases "truthy fm \<and> isArray fm \<and> elements fm \<noteq> []")
  case False
  then have "create_room st c fm =
      socket_emit c ''create-room-error'' (JStr ''Invalid file metadata provided.'') st"
    by (intro create_room_invalid) auto
  then show ?thesis by (simp add: store_socket_emit)
next
  case True
  then have steps: "truthy fm" "isArray fm" "elements fm \<noteq> []" by auto
  show ?thesis
  proof (cases "newShareRoom (nanoid (pool st) (poolOffset st) 6) c
             (nanoid (pool st) (poolOffset st + 6) 10) (elements fm)")
    case (Inl e)
    then show ?thesis
      by (simp add: create_room_steps [OF steps] store_socket_emit)
  next
    case (Inr room)
    note room = Inr
    show ?thesis
    proof (cases "save room (store st)")
      case (Inl e)
      with room show ?thesis
        by (simp add: create_room_steps [OF steps] store_socket_emit)
    next
      case (Inr coll)
      then have "shareId room \<notin> set (map shareId (store st))" "coll = store st @ [room]"
        by (auto simp: save_def split: if_splits)
      moreover have "store (create_room st c fm) = coll"
        using room Inr
        by (simp add: create_room_steps [OF steps] store_socket_emit store_socket_join)
      ultimately show ?thesis
        using newShareRoom_Inr [OF room] by auto
    qed
  qed
qed

lemma store_join_room:
  "store (join_room st c sid) =
     (if findOne (\<lambda>r. shareId r = sid \<and> isWaiting r) (store st) = None then store st
      else updateOne (\<lambda>r. shareId r = sid) (push_receiver c) (store st))"
  by (auto simp: join_room_def Let_def store_socket_emit socket_to_emit_def store_deliver
      socket_join_def split: option.splits)

lemma store_relay:
  "webrtc_offer st c data = Inr st' \<Longrightarrow> store st' = store st"
  "webrtc_answer st c data = Inr st' \<Longrightarrow> store st' = store st"
  "webrtc_ice_candidate st c data = Inr st' \<Longrightarrow> store st' = store st"
  by (auto simp: webrtc_offer_def webrtc_answer_def webrtc_ice_candidate_def io_to_emit_def
      store_deliver split: sum.splits if_splits)

lemma store_disconnect:
  "store (disconnect st c) =
     (if findOne (\<lambda>r. senderSocketId r = c) (store st) = None
      then map (pull_receiver c) (store st)
      else deleteOne (\<lambda>r. senderSocketId r = c) (store st))"
proof (cases "findOne (\<lambda>r. senderSocketId r = c) (store st)")
  case None
  then show ?thesis by (simp add: disconnect_receiver)
next
  case (Some room)
  then show ?thesis by (simp add: disconnect_sender io_to_emit_def store_deliver)
qed




lemma rooms_relay:
  "webrtc_offer st c data = Inr st' \<Longrightarrow> rooms st' = rooms st"
  "webrtc_answer st c data = Inr st' \<Longrightarrow> rooms st' = rooms st"
  "webrtc_ice_candidate st c data = Inr st' \<Longrightarrow> rooms st' = rooms st"
  by (auto simp: webrtc_offer_def webrtc_answer_def webrtc_ice_candidate_def io_to_emit_def
      rooms_deliver split: sum.splits if_splits)

lemma rooms_disconnect: "rooms (disconnect st c) = (\<lambda>room. removeAll c (rooms st room))"
  by (auto simp: disconnect_def disconnect_handler_def findOneAndDelete_def io_to_emit_def
      rooms_deliver socket_broadcast_emit_def socket_close_def Let_def split: option.splits)

lemma sids_join_room: "sids (join_room st c sid) = sids st"
  by (auto simp: join_room_def Let_def sids_socket_emit socket_to_emit_def sids_deliver
      socket_join_def split: option.splits)

lemma sids_relay:
  "webrtc_offer st c data = Inr st' \<Longrightarrow> sids st' = sids st"
  "webrtc_answer st c data = Inr st' \<Longrightarrow> sids st' = sids st"
  "webrtc_ice_candidate st c data = Inr st' \<Longrightarrow> sids st' = sids st"
  by (auto simp: webrtc_offer_def webrtc_answer_def webrtc_ice_candidate_def io_to_emit_def
      sids_deliver split: sum.splits if_splits)

lemma sids_disconnect: "sids (disconnect st c) = removeAll c (sids st)"
  by (auto simp: disconnect_def disconnect_handler_def findOneAndDelete_def io_to_emit_def
      sids_deliver socket_broadcast_emit_def socket_close_def Let_def split: option.splits)

lemma create_room_transport:
  "sids (create_room st c fm) = sids st
   \<and> (rooms (create_room st c fm) = rooms st
       \<or> rooms (create_room st c fm) =
            rooms (socket_join c (nanoid (pool st) (poolOffset st) 6) st))"
  by (auto simp: create_room_def Let_def rooms_socket_emit sids_socket_emit socket_join_def
      split: sum.splits)

lemma store_create_room_length:
  assumes "\<forall>s\<in>set (map shareId (store st)). length s = 6"
  shows "\<forall>s\<in>set (map shareId (store (create_room st c fm))). length s = 6"
proof (cases "store (create_room st c fm) = store st")
  case True
  with assms show ?thesis by simp
next
  case False
  then have shape: "truthy fm" "isArray fm" "elements fm \<noteq> []"
    by (rule create_room_changed_shape)+
  from False assms show ?thesis
    by (auto simp: create_room_steps [OF shape] store_socket_emit store_socket_join save_def
        length_nanoid dest!: newShareRoom_Inr split: sum.splits if_splits)
qed

lemma rooms_join_room_found:
  "rooms (join_room st c sid) \<noteq> rooms st \<Longrightarrow>
     sid \<in> set (map shareId (store st)) \<and> rooms (join_room st c sid) = rooms (socket_join c sid st)"
  by (auto simp: join_room_def Let_def rooms_socket_emit socket_to_emit_def rooms_deliver
      socket_join_def split: option.splits dest!: findOne_Some)

subsection \<open>Invariants of a step and of a run\<close>

lemma step_no_duplicates:
  assumes "no_duplicates st" "\<not> rejoins st e" "step st e = Inr st'"
  shows "no_duplicates st'"
proof (cases e)
  case (Connection c)
  with assms show ?thesis by (auto simp: no_duplicates_def store_connection)
next
  case (CreateRoom c fm)
  with assms store_create_room [of st c fm] show ?thesis
    by (auto simp: no_duplicates_def)
next
  case (JoinRoom c sid)
  show ?thesis
  proof (cases "findOne (\<lambda>r. shareId r = sid \<and> isWaiting r) (store st) = None")
    case True
    with assms JoinRoom show ?thesis
      by (auto simp: no_duplicates_def store_join_room)
  next
    case False
    with assms(2) JoinRoom
    have "\<And>r. findOne (\<lambda>r. shareId r = sid) (store st) = Some r \<Longrightarrow> c \<notin> set (receiverSocketIds r)"
      by auto
    with assms(1)
    have "\<forall>r\<in>set (updateOne (\<lambda>r. shareId r = sid) (push_receiver c) (store st)).
            distinct (receiverSocketIds r)"
      unfolding no_duplicates_def by (intro updateOne_push_distinct)
    with False assms(3) JoinRoom show ?thesis
      by (auto simp: no_duplicates_def store_join_room)
  qed
next
  case (WebrtcOffer c data)
  with assms store_relay(1) [of st c data st'] show ?thesis by (simp add: no_duplicates_def)
next
  case (WebrtcAnswer c data)
  with assms store_relay(2) [of st c data st'] show ?thesis by (simp add: no_duplicates_def)
next
  case (WebrtcIceCandidate c data)
  with assms store_relay(3) [of st c data st'] show ?thesis by (simp add: no_duplicates_def)
next
  case (Disconnect c)
  with assms deleteOne_subseq [of "\<lambda>r. senderSocketId r = c" "store st"] show ?thesis
    by (fastforce simp: no_duplicates_def store_disconnect pull_receiver_def distinct_removeAll
        split: if_splits)
qed




lemma step_own_rooms:
  assumes "own_rooms st" "step st e = Inr st'"
  shows "own_rooms st'"
proof (cases e)
  case (Connection c)
  with assms have st': "st' = connection st c" by simp
  have "rooms st' g = (if g \<in> set (sids st') then [g] else [])" if "length g \<noteq> 6" for g
  proof -
    from assms(1) that have old: "rooms st g = (if g \<in> set (sids st) then [g] else [])"
      by (simp add: own_rooms_def)
    show ?thesis
    proof (cases "g = c")
      case True
      with old show ?thesis
        by (simp add: st' connection_def socket_join_def set_add_def)
    next
      case False
      with old show ?thesis
        by (simp add: st' connection_def socket_join_def set_add_def)
    qed
  qed
  with assms(1) show ?thesis
    by (simp add: own_rooms_def st' store_connection)
next
  case (CreateRoom c fm)
  with assms have st': "st' = create_room st c fm" by simp
  from assms(1) have "\<forall>s\<in>set (map shareId (store st')). length s = 6"
    unfolding st' own_rooms_def by (intro store_create_room_length) simp
  moreover have "\<forall>g. length g \<noteq> 6 \<longrightarrow> rooms st' g = rooms st g"
    using create_room_transport [of st c fm]
    by (auto simp: st' socket_join_def length_nanoid)
  ultimately show ?thesis
    using assms(1) create_room_transport [of st c fm] by (simp add: own_rooms_def st')
next
  case (JoinRoom c sid)
  with assms have st': "st' = join_room st c sid" by simp
  have "\<forall>g. length g \<noteq> 6 \<longrightarrow> rooms st' g = rooms st g"
  proof (cases "rooms st' = rooms st")
    case True
    then show ?thesis by simp
  next
    case False
    from rooms_join_room_found [OF False [unfolded st']] assms(1)
    show ?thesis
      by (auto simp: st' own_rooms_def socket_join_def)
  qed
  moreover have "\<forall>s\<in>set (map shareId (store st')). length s = 6"
  proof -
    have "map shareId (store st') = map shareId (store st)"
      by (simp add: st' store_join_room map_shareId_updateOne)
    with assms(1) show ?thesis
      unfolding own_rooms_def by simp
  qed
  ultimately show ?thesis
    using assms(1) by (simp add: own_rooms_def st' sids_join_room)
next
  case (WebrtcOffer c data)
  with assms store_relay(1) [of st c data st'] rooms_relay(1) [of st c data st']
    sids_relay(1) [of st c data st'] show ?thesis by (simp add: own_rooms_def)
next
  case (WebrtcAnswer c data)
  with assms store_relay(2) [of st c data st'] rooms_relay(2) [of st c data st']
    sids_relay(2) [of st c data st'] show ?thesis by (simp add: own_rooms_def)
next
  case (WebrtcIceCandidate c data)
  with assms store_relay(3) [of st c data st'] rooms_relay(3) [of st c data st']
    sids_relay(3) [of st c data st'] show ?thesis by (simp add: own_rooms_def)
next
  case (Disconnect c)
  with assms have st': "st' = disconnect st c" by simp
  have "\<forall>s\<in>set (map shareId (store st')). length s = 6"
    using assms(1) deleteOne_subseq [of "\<lambda>r. senderSocketId r = c" "store st"]
    by (fastforce simp: st' own_rooms_def store_disconnect pull_receiver_def split: if_splits)
  then show ?thesis
    using assms(1) by (auto simp: own_rooms_def st' rooms_disconnect sids_disconnect)
qed

lemma run_own_rooms:
  assumes "run (start bytes) es = Inr st" "c \<in> set (sids st)" "length c \<noteq> 6"
  shows "rooms st c = [c]"
proof -
  have "own_rooms s \<Longrightarrow> run s es = Inr st \<Longrightarrow> own_rooms st" for s
  proof (induction es arbitrary: s)
    case Nil
    then show ?case by simp
  next
    case (Cons e es)
    then show ?case
      by (cases "step s e") (auto dest: step_own_rooms)
  qed
  moreover have "own_rooms (start bytes)"
    by (simp add: own_rooms_def start_def)
  ultimately have "own_rooms st" using assms(1) by blast
  with assms(2,3) show ?thesis by (simp add: own_rooms_def)
qed

subsection \<open>Evaluating the example states\<close>

lemmas run_defs =
  start_def connection_def socket_close_def socket_join_def set_add_def deliver_def
  socket_emit_def io_to_emit_def socket_to_emit_def socket_broadcast_emit_def allSockets_def
  create_room_def join_room_def disconnect_def disconnect_handler_def findOneAndDelete_def
  newShareRoom_def save_def updateMany_def push_receiver_def pull_receiver_def
  nanoid_def urlAlphabet_def FileMetadata_json_def emitted_def notice_def Let_def upt_rec

lemmas example_defs =
  demo_bytes_def a_txt_def lobby_def shared_def joined_def

lemma run_joined:
  "run (start demo_bytes)
     [Connection ''S'', Connection ''R1'', Connection ''R2'', CreateRoom ''S'' (JArr [a_txt]),
      JoinRoom ''R1'' ''useand'', JoinRoom ''R2'' ''useand''] = Inr joined"
  by (simp add: joined_def shared_def lobby_def)


lemma store_joined:
  "store joined =
     [\<lparr>shareId = ''useand'', senderSocketId = ''S'', receiverSocketIds = [''R1'', ''R2''],
       fileMetadata = [\<lparr>originalName = ''a.txt'', fileSize = 10, mimeType = ''text/plain''\<rparr>],
       isWaiting = True, deletionKey = ''om-26T1983''\<rparr>]"
  by (simp add: example_defs run_defs)


lemma sids_joined: "sids joined = [''S'', ''R1'', ''R2'']"
  by (simp add: example_defs run_defs)

section \<open>The claims\<close>

subsection \<open>C1: duplicates in the list of receivers\<close>

text \<open>
  The claim says that \<^verbatim>\<open>receiverSocketIds\<close> never holds a connection twice, even when
  the same connection joins the same room twice. The handler appends with \<^verbatim>\<open>$push\<close>
  and looks at the list nowhere: in the example, \<^verbatim>\<open>R1\<close> joins \<^verbatim>\<open>useand\<close> twice and is listed
  twice.
\<close>

theorem receivers_duplicate:
  "map receiverSocketIds (store (join_room (join_room shared ''R1'' ''useand'') ''R1'' ''useand''))
     = [[''R1'', ''R1'']]
   \<and> \<not> no_duplicates (join_room (join_room shared ''R1'' ''useand'') ''R1'' ''useand'')"
  by (simp add: no_duplicates_def example_defs run_defs)

text \<open>
  C1, amended: in every run in which no connection joins a room whose list of receivers
  already holds it, no list of receivers ever holds a connection twice. (Creating a room
  starts its list empty, a join appends one entry, a disconnect removes entries.)
\<close>

theorem receivers_distinct:
  assumes "no_duplicates st" "fresh_joins st es" "run st es = Inr st'"
  shows "no_duplicates st'"
  using assms
proof (induction es arbitrary: st)
  case Nil
  then show ?case by simp
next
  case (Cons e es)
  show ?case
  proof (cases "step st e")
    case (Inl x)
    with Cons.prems show ?thesis by simp
  next
    case (Inr st1)
    with Cons.prems have "no_duplicates st1"
      by (intro step_no_duplicates [of st e st1]) auto
    moreover from Inr Cons.prems have "fresh_joins st1 es" "run st1 es = Inr st'"
      by auto
    ultimately show ?thesis by (rule Cons.IH)
  qed
qed

text \<open>The run that leads to \<open>joined\<close> has fresh joins, and \<open>joined\<close> lists \<^verbatim>\<open>R1\<close>, \<^verbatim>\<open>R2\<close>.\<close>

theorem receivers_distinct_witness:
  "run (start demo_bytes)
     [Connection ''S'', Connection ''R1'', Connection ''R2'', CreateRoom ''S'' (JArr [a_txt]),
      JoinRoom ''R1'' ''useand'', JoinRoom ''R2'' ''useand''] = Inr joined
   \<and> map receiverSocketIds (store joined) = [[''R1'', ''R2'']]
   \<and> no_duplicates joined"
proof -
  let ?es = "[Connection ''S'', Connection ''R1'', Connection ''R2'', CreateRoom ''S'' (JArr [a_txt]),
      JoinRoom ''R1'' ''useand'', JoinRoom ''R2'' ''useand'']"
  have i: "no_duplicates (start demo_bytes)"
    by (simp add: no_duplicates_def start_def)
  have f: "fresh_joins (start demo_bytes) ?es"
    by (simp add: demo_bytes_def a_txt_def run_defs)
  from receivers_distinct [OF i f run_joined] run_joined store_joined show ?thesis
    by simp
qed

subsection \<open>C2: a collision of identifiers\<close>

text \<open>
  The claim says that create generates again when the generated identifiers violate a
  uniqueness constraint. The handler calls \<^verbatim>\<open>nanoid\<close> twice and \<^verbatim>\<open>save\<close> once; a rejected
  \<^verbatim>\<open>save\<close> ends in the \<^verbatim>\<open>catch\<close> block. In the example the pool repeats, the second
  create draws sixteen bytes and fails with the message of every server fault, although the
  bytes that follow would have given identifiers no room holds.
\<close>

theorem create_room_gives_up:
  "nanoid (pool stuck) (poolOffset stuck) 6 \<in> set (map shareId (store stuck))
   \<and> store (create_room stuck ''S'' (JArr [a_txt])) = store stuck
   \<and> poolOffset stuck = 16
   \<and> poolOffset (create_room stuck ''S'' (JArr [a_txt])) = 32
   \<and> emitted stuck (create_room stuck ''S'' (JArr [a_txt])) =
       [notice ''create-room-error'' (JStr ''Failed to create room on server.'') ''S'']
   \<and> nanoid stuck_bytes 32 6 \<notin> set (map shareId (store stuck))
   \<and> nanoid stuck_bytes 38 10 \<notin> set (map deletionKey (store stuck))"
  by (simp add: stuck_def stuck_bytes_def a_txt_def run_defs)

text \<open>
  C2, amended: create draws the share id (6 characters) and the deletion key (10
  characters) once, from 16 consecutive bytes of the pool. When a stored room already
  holds the share id or the deletion key, create does not generate again: the sender gets
  \<^verbatim>\<open>create-room-error\<close> with the message \<^verbatim>\<open>Failed to create room on server.\<close>, and neither
  the collection nor a room of the adapter changes.
\<close>

theorem create_room_no_retry:
  assumes "truthy fm" "isArray fm" "elements fm \<noteq> []"
    and "nanoid (pool st) (poolOffset st) 6 \<in> set (map shareId (store st))
       \<or> nanoid (pool st) (poolOffset st + 6) 10 \<in> set (map deletionKey (store st))"
  shows "create_room st c fm =
           socket_emit c ''create-room-error'' (JStr ''Failed to create room on server.'')
             (st\<lparr>poolOffset := poolOffset st + 16\<rparr>)
       \<and> poolOffset (create_room st c fm) = poolOffset st + 16
       \<and> store (create_room st c fm) = store st
       \<and> rooms (create_room st c fm) = rooms st
       \<and> emitted st (create_room st c fm) =
           [notice ''create-room-error'' (JStr ''Failed to create room on server.'') c]"
proof -
  have "create_room st c fm =
           socket_emit c ''create-room-error'' (JStr ''Failed to create room on server.'')
             (st\<lparr>poolOffset := poolOffset st + 16\<rparr>)"
  proof (cases "newShareRoom (nanoid (pool st) (poolOffset st) 6) c
             (nanoid (pool st) (poolOffset st + 6) 10) (elements fm)")
    case (Inl e)
    then show ?thesis
      by (simp add: create_room_steps [OF assms(1-3)])
  next
    case (Inr room)
    from newShareRoom_Inr [OF this] assms(4) have "save room (store st) = Inl DuplicateKey"
      by (auto simp: save_def)
    with Inr show ?thesis
      by (simp add: create_room_steps [OF assms(1-3)])
  qed
  then show ?thesis
    by (simp add: store_socket_emit rooms_socket_emit emitted_socket_emit
        poolOffset_socket_emit)
qed

theorem create_room_no_retry_witness:
  "create_room stuck ''S'' (JArr [a_txt]) =
     socket_emit ''S'' ''create-room-error'' (JStr ''Failed to create room on server.'')
       (stuck\<lparr>poolOffset := poolOffset stuck + 16\<rparr>)
   \<and> store (create_room stuck ''S'' (JArr [a_txt])) = store stuck"
proof -
  have "nanoid (pool stuck) (poolOffset stuck) 6 \<in> set (map shareId (store stuck))
       \<or> nanoid (pool stuck) (poolOffset stuck + 6) 10 \<in> set (map deletionKey (store stuck))"
    by (simp add: stuck_def stuck_bytes_def a_txt_def run_defs)
  then have "create_room stuck ''S'' (JArr [a_txt]) =
           socket_emit ''S'' ''create-room-error'' (JStr ''Failed to create room on server.'')
             (stuck\<lparr>poolOffset := poolOffset stuck + 16\<rparr>)
       \<and> poolOffset (create_room stuck ''S'' (JArr [a_txt])) = poolOffset stuck + 16
       \<and> store (create_room stuck ''S'' (JArr [a_txt])) = store stuck
       \<and> rooms (create_room stuck ''S'' (JArr [a_txt])) = rooms stuck
       \<and> emitted stuck (create_room stuck ''S'' (JArr [a_txt])) =
           [notice ''create-room-error'' (JStr ''Failed to create room on server.'') ''S'']"
    by (intro create_room_no_retry) simp_all
  then show ?thesis by blast
qed

subsection \<open>C3: an exception that leaves a relay handler\<close>

text \<open>
  C3 says that every fault of a handler is caught at the handler and that the relay
  handlers throw on no payload. The relays have no \<^verbatim>\<open>try\<close> block, and their guard
  \<^verbatim>\<open>if (!data.targetSocketId) return\<close> reads a property of \<^verbatim>\<open>data\<close> first: on an event
  sent without an argument, or with \<^verbatim>\<open>null\<close>, the TypeError leaves the handler, nothing is
  sent to the sender, and the run ends there.
\<close>

theorem relay_throws:
  "webrtc_offer st c JUndefined = Inl TypeError \<and> webrtc_offer st c JNull = Inl TypeError \<and>
   webrtc_answer st c JUndefined = Inl TypeError \<and> webrtc_answer st c JNull = Inl TypeError \<and>
   webrtc_ice_candidate st c JUndefined = Inl TypeError \<and>
   webrtc_ice_candidate st c JNull = Inl TypeError \<and>
   run st (WebrtcOffer c JUndefined # es) = Inl TypeError"
  by (simp add: webrtc_offer_def webrtc_answer_def webrtc_ice_candidate_def)

subsection \<open>C4: the sender disconnects\<close>




subsection \<open>C5: a receiver disconnects\<close>

text \<open>
  C5: when a connection disconnects that is the sender of no room, \<^verbatim>\<open>peer-left\<close> with its
  id goes to every other connected socket, whatever room it is in; then the id is pulled
  from the list of receivers of every room, and no document is deleted. A list that did
  not hold the id is unchanged, and so is the collection when the disconnect is repeated.
\<close>

theorem disconnect_receiver_branch:
  assumes "findOne (\<lambda>r. senderSocketId r = c) (store st) = None"
  shows "emitted st (disconnect st c) =
           map (notice ''peer-left'' (JObj [(''peerSocketId'', JStr c)])) (removeAll c (sids st))
       \<and> store (disconnect st c) =
           map (\<lambda>r. r\<lparr>receiverSocketIds := removeAll c (receiverSocketIds r)\<rparr>) (store st)
       \<and> map shareId (store (disconnect st c)) = map shareId (store st)
       \<and> (\<forall>r\<in>set (store (disconnect st c)). c \<notin> set (receiverSocketIds r))
       \<and> ((\<forall>r\<in>set (store st). c \<notin> set (receiverSocketIds r)) \<longrightarrow>
            store (disconnect st c) = store st)
       \<and> store (disconnect (disconnect st c) c) = store (disconnect st c)"
proof -
  let ?st' = "disconnect st c"
  have st': "?st' = (socket_broadcast_emit c ''peer-left'' (JObj [(''peerSocketId'', JStr c)])
                      (socket_close st c))\<lparr>store := map (pull_receiver c) (store st)\<rparr>"
    using assms by (rule disconnect_receiver)
  have out: "emitted st ?st' =
      map (notice ''peer-left'' (JObj [(''peerSocketId'', JStr c)])) (removeAll c (sids st))"
    by (simp add: st' emitted_def socket_broadcast_emit_def outbox_deliver socket_close_def
        filter_id_conv)
  have sto: "store ?st' = map (pull_receiver c) (store st)"
    by (simp add: st')
  have none: "findOne (\<lambda>r. senderSocketId r = c) (store ?st') = None"
    using assms by (simp add: sto findOne_None pull_receiver_def)
  have again: "store (disconnect ?st' c) = map (pull_receiver c) (store ?st')"
    using disconnect_receiver [OF none] by simp
  have idem: "map (pull_receiver c) (map (pull_receiver c) coll) = map (pull_receiver c) coll" for coll
    by (simp add: pull_receiver_def)
  show ?thesis
    using out sto again idem [of "store st"]
    by (auto simp: pull_receiver_def comp_def map_idI)
qed

theorem disconnect_receiver_branch_witness:
  "emitted joined (disconnect joined ''R1'') =
     [notice ''peer-left'' (JObj [(''peerSocketId'', JStr ''R1'')]) ''S'',
      notice ''peer-left'' (JObj [(''peerSocketId'', JStr ''R1'')]) ''R2'']
   \<and> map receiverSocketIds (store joined) = [[''R1'', ''R2'']]
   \<and> map receiverSocketIds (store (disconnect joined ''R1'')) = [[''R2'']]
   \<and> map shareId (store (disconnect joined ''R1'')) = [''useand'']"
proof -
  let ?room = "\<lparr>shareId = ''useand'', senderSocketId = ''S'', receiverSocketIds = [''R1'', ''R2''],
      fileMetadata = [\<lparr>originalName = ''a.txt'', fileSize = 10, mimeType = ''text/plain''\<rparr>],
      isWaiting = True, deletionKey = ''om-26T1983''\<rparr>"
  have none: "findOne (\<lambda>r. senderSocketId r = ''R1'') (store joined) = None"
    by (simp add: store_joined)
  note inst = disconnect_receiver_branch [OF none]
  from inst [THEN conjunct1] sids_joined
  have out: "emitted joined (disconnect joined ''R1'') =
     [notice ''peer-left'' (JObj [(''peerSocketId'', JStr ''R1'')]) ''S'',
      notice ''peer-left'' (JObj [(''peerSocketId'', JStr ''R1'')]) ''R2'']"
    by simp
  from inst [THEN conjunct2, THEN conjunct1] store_joined
  have "store (disconnect joined ''R1'') = [?room\<lparr>receiverSocketIds := [''R2'']\<rparr>]"
    by simp
  with out store_joined show ?thesis
    by simp
qed

subsection \<open>C6: joining a room that is not there\<close>



subsection \<open>C7: what create validates\<close>




subsection \<open>C8: the relays\<close>



subsection \<open>C9: one disconnect deletes at most one room\<close>

text \<open>
  C9: a disconnect shortens the collection by at most one document. When the connection
  is the sender of one or more rooms, exactly the first of them is deleted and every
  other document, the other rooms of this sender among them, stays as it was: no list of
  receivers is touched. The only events emitted are the \<^verbatim>\<open>room-closed-by-sender\<close> of the
  deleted room, so no \<^verbatim>\<open>peer-left\<close> is sent.
\<close>

theorem disconnect_deletes_at_most_one:
  "length (store st) \<le> Suc (length (store (disconnect st c)))
   \<and> (\<forall>room. findOne (\<lambda>r. senderSocketId r = c) (store st) = Some room \<longrightarrow>
         (\<exists>pre post. store st = pre @ room # post
            \<and> (\<forall>r\<in>set pre. senderSocketId r \<noteq> c)
            \<and> store (disconnect st c) = pre @ post)
       \<and> emitted st (disconnect st c) =
           map (notice ''room-closed-by-sender'' JUndefined) (removeAll c (rooms st (shareId room))))"
proof (intro conjI allI impI)
  show "length (store st) \<le> Suc (length (store (disconnect st c)))"
  proof (cases "findOne (\<lambda>r. senderSocketId r = c) (store st)")
    case None
    then show ?thesis
      by (simp add: disconnect_receiver)
  next
    case (Some room)
    then show ?thesis
      by (simp add: disconnect_sender io_to_emit_def store_deliver length_deleteOne)
  qed
next
  fix room
  assume f: "findOne (\<lambda>r. senderSocketId r = c) (store st) = Some room"
  from findOne_split [OF f]
  show "\<exists>pre post. store st = pre @ room # post
            \<and> (\<forall>r\<in>set pre. senderSocketId r \<noteq> c)
            \<and> store (disconnect st c) = pre @ post"
    by (simp add: disconnect_sender [OF f] io_to_emit_def store_deliver)
  show "emitted st (disconnect st c) =
           map (notice ''room-closed-by-sender'' JUndefined) (removeAll c (rooms st (shareId room)))"
    by (simp add: disconnect_sender [OF f] io_to_emit_def emitted_def outbox_deliver
        socket_close_def)
qed

theorem disconnect_deletes_at_most_one_witness:
  "map senderSocketId (store twice) = [''S'', ''S'']
   \<and> map shareId (store twice) = [''useand'', ''40PX75'']
   \<and> map shareId (store (disconnect twice ''S'')) = [''40PX75'']
   \<and> length (store twice) \<le> Suc (length (store (disconnect twice ''S'')))"
proof -
  have "map senderSocketId (store twice) = [''S'', ''S'']"
    "map shareId (store twice) = [''useand'', ''40PX75'']"
    "map shareId (store (disconnect twice ''S'')) = [''40PX75'']"
    by (simp_all add: twice_def example_defs run_defs)
  with disconnect_deletes_at_most_one [of twice "''S''"] show ?thesis
    by simp
qed

subsection \<open>C10: the identifiers a create returns\<close>



end
